theory Spec2Isabelle
  imports Complex_Main
begin

section \<open>Graphify: pattern validation, scheduling, authenticity checks, batched execution\<close>

text \<open>
  The development embeds the TypeScript of
  \<^verbatim>\<open>shared/src/utils/pattern-utils.ts\<close>, \<^verbatim>\<open>shared/src/utils/scheduler.ts\<close>,
  \<^verbatim>\<open>graphify-cli/src/commands/date.ts\<close> and \<^verbatim>\<open>graphify-cli/src/utils/date-utils.ts\<close>.

  Conventions of the embedding:
  \<^item> a JavaScript \<^verbatim>\<open>number\<close> is a double. A number that the code reads or compares (a cell
    value, the density, a value of \<^verbatim>\<open>Math.random()\<close>) is the \<^typ>\<open>real\<close> that a finite
    double denotes. Where \<^verbatim>\<open>scheduler.ts\<close> computes with numbers that need not be
    integers (the count of commits of a cell, the late-night percentage) every operation
    rounds as the runtime rounds it, with its infinities and NaN; a quotient of two
    integers of which only the floor or the ceiling is used is taken exactly, and so is,
    in \<^verbatim>\<open>date.ts\<close>, the product of a random draw and a constant. Counters, indices and
    millisecond timestamps are \<^typ>\<open>nat\<close> or \<^typ>\<open>int\<close>;
  \<^item> a \<^verbatim>\<open>Date\<close> and a luxon \<^verbatim>\<open>DateTime\<close> are their epoch milliseconds, an \<^typ>\<open>int\<close>;
    the local zone is a fixed offset (taken as zero), so a calendar day is 86400000 ms;
  \<^item> \<^verbatim>\<open>Math.random()\<close> is an explicit source \<open>rnd :: nat \<Rightarrow> real\<close> together with the
    number of draws made so far; the \<open>k\<close>-th call returns \<open>rnd k\<close>;
  \<^item> an issue text built by a template literal is a constructor that carries the
    interpolated values (the runtime's rendering of numbers and dates is not modelled);
    the commit message, whose holes are indices, is the string itself;
  \<^item> a \<^verbatim>\<open>throw\<close> (and a promise that rejects) is the \<open>Inl\<close> branch of a sum, a
    computation that may not return is \<open>option\<close>-valued with \<open>None\<close> for "does not
    return";
  \<^item> a module that the code imports and that is not among the sources is modelled from
    the specification, definition by definition, and each such definition says so.
\<close>

subsection \<open>Pattern validator (\<^verbatim>\<open>pattern-utils.ts\<close>)\<close>

datatype issue =
    PatternEmpty                       \<comment> \<open>\<^verbatim>\<open>'Pattern is empty'\<close>\<close>
  | PatternEmptyRows                   \<comment> \<open>\<^verbatim>\<open>'Pattern has empty rows'\<close>\<close>
  | RowLength nat nat nat              \<comment> \<open>row number \<open>i + 1\<close>, its length, the first row's length\<close>
  | InvalidIntensity real nat nat      \<comment> \<open>value, row, col\<close>
  | VeryLarge nat nat nat              \<comment> \<open>rows, columns, rows * columns\<close>

definition isInteger :: "real \<Rightarrow> bool" where
  "isInteger v = (of_int \<lfloor>v\<rfloor> = v)"

text \<open>The test of line 31: \<^verbatim>\<open>!Number.isInteger(value) || value < 0 || value > 4\<close>.\<close>

definition invalidIntensity :: "real \<Rightarrow> bool" where
  "invalidIntensity v = (\<not> isInteger v \<or> v < 0 \<or> v > 4)"

text \<open>The loop of lines 21-25, from row index \<open>i\<close> on.\<close>

fun rowLengthIssues :: "real list list \<Rightarrow> nat \<Rightarrow> nat \<Rightarrow> issue list" where
  "rowLengthIssues [] i firstRowLength = []"
| "rowLengthIssues (r # rs) i firstRowLength =
     (if length r \<noteq> firstRowLength then [RowLength (i + 1) (length r) firstRowLength] else [])
     @ rowLengthIssues rs (Suc i) firstRowLength"

text \<open>The inner loop of lines 29-34 over one row, from column \<open>col\<close> on.\<close>

fun colIssues :: "real list \<Rightarrow> nat \<Rightarrow> nat \<Rightarrow> issue list" where
  "colIssues [] row col = []"
| "colIssues (v # vs) row col =
     (if invalidIntensity v then [InvalidIntensity v row col] else [])
     @ colIssues vs row (Suc col)"

text \<open>The outer loop of lines 28-35, from row \<open>row\<close> on.\<close>

fun cellIssues :: "real list list \<Rightarrow> nat \<Rightarrow> issue list" where
  "cellIssues [] row = []"
| "cellIssues (r # rs) row = colIssues r row 0 @ cellIssues rs (Suc row)"

definition validatePattern :: "real list list \<Rightarrow> issue list" where
  "validatePattern pattern =
     (if pattern = [] then [PatternEmpty]
      else let firstRowLength = length (hd pattern) in
        if firstRowLength = 0 then [PatternEmptyRows]
        else rowLengthIssues (tl pattern) 1 firstRowLength
           @ cellIssues pattern 0
           @ (if length pattern * firstRowLength > 365
              then [VeryLarge (length pattern) firstRowLength (length pattern * firstRowLength)]
              else []))"

subsection \<open>Dates\<close>

type_synonym Date = int

definition msPerDay :: int where
  "msPerDay = 86400000"

definition dayNumber :: "Date \<Rightarrow> int" where
  "dayNumber d = d div msPerDay"

text \<open>\<^verbatim>\<open>getDay()\<close>: 0 is Sunday, 6 is Saturday; day 0 of the epoch was a Thursday.\<close>

definition getDay :: "Date \<Rightarrow> int" where
  "getDay d = (dayNumber d + 4) mod 7"

definition getHours :: "Date \<Rightarrow> int" where
  "getHours d = (d mod msPerDay) div 3600000"

text \<open>
  The proleptic Gregorian calendar of the runtime: year, month (1-12) and day of month of
  a day number, and the day number of a civil date.
\<close>

definition civilFromDays :: "int \<Rightarrow> int \<times> int \<times> int" where
  "civilFromDays z =
     (let z1 = z + 719468;
          era = z1 div 146097;
          doe = z1 mod 146097;
          yoe = (doe - doe div 1460 + doe div 36524 - doe div 146096) div 365;
          doy = doe - (365 * yoe + yoe div 4 - yoe div 100);
          mp = (5 * doy + 2) div 153;
          dd = doy - (153 * mp + 2) div 5 + 1;
          mm = (if mp < 10 then mp + 3 else mp - 9);
          yy = yoe + era * 400 + (if mm \<le> 2 then 1 else 0)
      in (yy, mm, dd))"

definition daysFromCivil :: "int \<Rightarrow> int \<Rightarrow> int \<Rightarrow> int" where
  "daysFromCivil y m d =
     (let y1 = (if m \<le> 2 then y - 1 else y);
          era = y1 div 400;
          yoe = y1 mod 400;
          doy = (153 * (if m > 2 then m - 3 else m + 9) + 2) div 5 + d - 1;
          doe = yoe * 365 + yoe div 4 - yoe div 100 + doy
      in era * 146097 + doe - 719468)"

definition getFullYear :: "Date \<Rightarrow> int" where
  "getFullYear d = fst (civilFromDays (dayNumber d))"

text \<open>\<^verbatim>\<open>getMonth()\<close> counts from 0.\<close>

definition getMonth :: "Date \<Rightarrow> int" where
  "getMonth d = fst (snd (civilFromDays (dayNumber d))) - 1"

definition getDate :: "Date \<Rightarrow> int" where
  "getDate d = snd (snd (civilFromDays (dayNumber d)))"

text \<open>
  \<^verbatim>\<open>new Date(year, month, day)\<close> for a month index in 0..11: local midnight; a day
  outside the month rolls over, as the runtime does (\<^verbatim>\<open>new Date(y, 5, 0)\<close> is 31 May).
\<close>

definition newDate :: "int \<Rightarrow> int \<Rightarrow> int \<Rightarrow> Date" where
  "newDate y m0 d = (daysFromCivil y (m0 + 1) 1 + (d - 1)) * msPerDay"

text \<open>\<^verbatim>\<open>setDate(n)\<close>: the day of month becomes \<open>n\<close>, rolling over; the clock time stays.\<close>

definition setDate :: "Date \<Rightarrow> int \<Rightarrow> Date" where
  "setDate d n = d + (n - getDate d) * msPerDay"

text \<open>\<^verbatim>\<open>setHours(h, m, s)\<close>: the calendar day and the milliseconds stay.\<close>

definition setHours :: "Date \<Rightarrow> int \<Rightarrow> int \<Rightarrow> int \<Rightarrow> Date" where
  "setHours d h m s = dayNumber d * msPerDay + h * 3600000 + m * 60000 + s * 1000 + d mod 1000"

subsection \<open>Date predicates of \<^verbatim>\<open>commands/date.ts\<close>\<close>

text \<open>Lines 173-176.\<close>

definition isWeekend :: "Date \<Rightarrow> bool" where
  "isWeekend date = (let day = getDay date in day = 0 \<or> day = 6)"

text \<open>Lines 184-187: \<^verbatim>\<open>hour >= 9 && hour <= 17\<close>.\<close>

definition isBusinessHours :: "Date \<Rightarrow> bool" where
  "isBusinessHours date = (let hour = getHours date in hour \<ge> 9 \<and> hour \<le> 17)"

subsection \<open>Date predicates of \<^verbatim>\<open>graphify-cli/src/utils/date-utils.ts\<close>\<close>

text \<open>Lines 136-139: \<^verbatim>\<open>dt.hour >= 9 && dt.hour < 17\<close>.\<close>

definition isBusinessHours_utils :: "Date \<Rightarrow> bool" where
  "isBusinessHours_utils date = (getHours date \<ge> 9 \<and> getHours date < 17)"

subsection \<open>Holidays and authenticity adjustment (\<^verbatim>\<open>commands/date.ts\<close>)\<close>

text \<open>The remainder operator \<^verbatim>\<open>%\<close> takes the sign of the dividend.\<close>

definition jsRem :: "int \<Rightarrow> int \<Rightarrow> int" where
  "jsRem a b = sgn a * (\<bar>a\<bar> mod \<bar>b\<bar>)"

text \<open>Lines 207-244.\<close>

definition isHoliday :: "Date \<Rightarrow> bool" where
  "isHoliday date =
     (let month = getMonth date; day = getDate date; year = getFullYear date in
      if month = 0 \<and> day = 1 then True
      else if month = 4 \<and>
           (let lastDay = getDate (newDate year 5 0);
                lastMonday = lastDay - getDay (newDate year 5 0)
            in day = lastMonday \<or>
               (lastMonday < day \<and> day \<le> lastDay \<and> getDay (newDate year 4 day) = 1))
        then True
      else if month = 6 \<and> day = 4 then True
      else if month = 8 \<and>
           (let firstMonday = 1 + jsRem (8 - getDay (newDate year 8 1)) 7
            in day = firstMonday)
        then True
      else if month = 10 \<and>
           (let firstThursday = 1 + jsRem (4 - getDay (newDate year 10 1)) 7;
                fourthThursday = firstThursday + 21
            in day = fourthThursday)
        then True
      else if month = 11 \<and> day = 25 then True
      else False)"

text \<open>
  \<^verbatim>\<open>DateAdjustmentOptions\<close> after the defaults of lines 270-274 have been applied
  (the field names carry a suffix: the scheduler's options use the same names).
\<close>

record DateAdjustmentOptions =
  avoidWeekends_adj :: bool
  workHoursOnly_adj :: bool
  avoidHolidays_adj :: bool

text \<open>Lines 279-287.\<close>

definition weekendStep :: "DateAdjustmentOptions \<Rightarrow> Date \<Rightarrow> Date" where
  "weekendStep options adjustedDate =
     (if avoidWeekends_adj options \<and> isWeekend adjustedDate then
        (let day = getDay adjustedDate in
         if day = 0 then setDate adjustedDate (getDate adjustedDate + 1)
         else setDate adjustedDate (getDate adjustedDate - 1))
      else adjustedDate)"

text \<open>
  Lines 290-301, on the date and the number of random draws made so far.
  \<^verbatim>\<open>Math.round(x)\<close> is \<open>\<lfloor>x + 1/2\<rfloor>\<close>; arguments are evaluated left to right.
\<close>

definition workHoursStep ::
  "DateAdjustmentOptions \<Rightarrow> (nat \<Rightarrow> real) \<Rightarrow> Date \<times> nat \<Rightarrow> Date \<times> nat" where
  "workHoursStep options rnd s =
     (case s of (adjustedDate, k) \<Rightarrow>
      if workHoursOnly_adj options \<and> \<not> isBusinessHours adjustedDate then
        (let hour = getHours adjustedDate in
         if hour < 9 then (setHours adjustedDate 9 \<lfloor>rnd k * 45\<rfloor> 0, k + 1)
         else if hour > 17 then
           (setHours adjustedDate (16 + \<lfloor>rnd k + 1 / 2\<rfloor>) \<lfloor>rnd (k + 1) * 60\<rfloor> 0, k + 2)
         else (adjustedDate, k))
      else (adjustedDate, k))"

text \<open>
  Lines 266-311. The function calls itself after a holiday shift, with nothing that
  bounds the number of calls, so the result is an \<open>option\<close>: \<open>None\<close> stands for a
  recursion that never comes back with a date.
\<close>

partial_function (option) adjustDateForAuthenticity ::
  "DateAdjustmentOptions \<Rightarrow> (nat \<Rightarrow> real) \<Rightarrow> Date \<times> nat \<Rightarrow> (Date \<times> nat) option" where
  "adjustDateForAuthenticity options rnd s =
     (case workHoursStep options rnd (weekendStep options (fst s), snd s) of
        (adjustedDate, k) \<Rightarrow>
          if avoidHolidays_adj options \<and> isHoliday adjustedDate
          then adjustDateForAuthenticity options rnd
                 (setDate adjustedDate (getDate adjustedDate + 1), k)
          else Some (adjustedDate, k))"

declare adjustDateForAuthenticity.simps [code]

subsection \<open>Numbers of the runtime\<close>

text \<open>
  A number of the runtime is an IEEE 754 double: a finite value, an infinity or NaN. A
  finite double is the real it denotes (the two zeros are one value). An arithmetic
  operation on finite doubles returns the exact result rounded to the nearest double,
  ties to the even significand, and an infinity beyond the largest double.
\<close>

datatype jsnum =
    Finite real
  | PlusInfinity
  | MinusInfinity
  | NotANumber

text \<open>
  The binary exponent of a magnitude \<open>x\<close>, kept within the range -1022 to 1023 of the
  format: from \<open>p = 1\<close>, the doublings of \<open>p\<close> that stay at or below \<open>x\<close>, or the
  halvings of \<open>p\<close> until it is at or below \<open>x\<close>.
\<close>

fun stepsUp :: "nat \<Rightarrow> real \<Rightarrow> real \<Rightarrow> nat" where
  "stepsUp 0 p x = 0"
| "stepsUp (Suc n) p x = (if x < 2 * p then 0 else Suc (stepsUp n (2 * p) x))"

fun stepsDown :: "nat \<Rightarrow> real \<Rightarrow> real \<Rightarrow> nat" where
  "stepsDown 0 p x = 0"
| "stepsDown (Suc n) p x = (if p \<le> x then 0 else Suc (stepsDown n (p / 2) x))"

definition exponentOf :: "real \<Rightarrow> int" where
  "exponentOf x = (if 1 \<le> x then int (stepsUp 1023 1 x) else - int (stepsDown 1022 1 x))"

definition pow2 :: "int \<Rightarrow> real" where
  "pow2 e = (if 0 \<le> e then 2 ^ nat e else 1 / 2 ^ nat (- e))"

text \<open>The nearest integer, a tie going to the even one.\<close>

definition roundHalfEven :: "real \<Rightarrow> int" where
  "roundHalfEven q =
     (let f = \<lfloor>q\<rfloor>; d = q - of_int f
      in if d < 1 / 2 then f else if d > 1 / 2 then f + 1 else if even f then f else f + 1)"

text \<open>
  The spacing of the doubles around \<open>x\<close> (53 significant bits), the significand that
  \<open>x\<close> rounds to, as a multiple of that spacing, and the double that a real of finite
  range rounds to.
\<close>

definition ulpOf :: "real \<Rightarrow> real" where
  "ulpOf x = pow2 (exponentOf \<bar>x\<bar> - 52)"

definition significandOf :: "real \<Rightarrow> int" where
  "significandOf x = roundHalfEven (\<bar>x\<bar> / ulpOf x)"

definition roundToDouble :: "real \<Rightarrow> real" where
  "roundToDouble x = sgn x * of_int (significandOf x) * ulpOf x"

text \<open>The number that an exact result \<open>x\<close> becomes.\<close>

definition rounded :: "real \<Rightarrow> jsnum" where
  "rounded x =
     (if exponentOf \<bar>x\<bar> = 1023 \<and> 2 ^ 53 \<le> significandOf x
      then (if 0 < x then PlusInfinity else MinusInfinity)
      else Finite (roundToDouble x))"




text \<open>
  The operator \<^verbatim>\<open>*\<close>: the rounded product of two finite numbers; NaN when a factor is
  NaN or when zero meets an infinity; otherwise the infinity with the sign of the
  product.
\<close>

definition signOf :: "jsnum \<Rightarrow> real" where
  "signOf a = (case a of Finite x \<Rightarrow> sgn x | PlusInfinity \<Rightarrow> 1 | MinusInfinity \<Rightarrow> - 1
               | NotANumber \<Rightarrow> 0)"

fun jsMul :: "jsnum \<Rightarrow> jsnum \<Rightarrow> jsnum" where
  "jsMul (Finite x) (Finite y) = rounded (x * y)"
| "jsMul NotANumber b = NotANumber"
| "jsMul a NotANumber = NotANumber"
| "jsMul a b =
     (if signOf a * signOf b = 0 then NotANumber
      else if 0 < signOf a * signOf b then PlusInfinity else MinusInfinity)"

text \<open>\<^verbatim>\<open>Math.ceil\<close>; the ceiling of a double is a double.\<close>

fun jsCeil :: "jsnum \<Rightarrow> jsnum" where
  "jsCeil (Finite x) = Finite (of_int \<lceil>x\<rceil>)"
| "jsCeil a = a"

text \<open>\<^verbatim>\<open>Math.min\<close> of two numbers.\<close>

fun jsMin :: "jsnum \<Rightarrow> jsnum \<Rightarrow> jsnum" where
  "jsMin NotANumber b = NotANumber"
| "jsMin a NotANumber = NotANumber"
| "jsMin MinusInfinity b = MinusInfinity"
| "jsMin a MinusInfinity = MinusInfinity"
| "jsMin PlusInfinity b = b"
| "jsMin a PlusInfinity = a"
| "jsMin (Finite x) (Finite y) = Finite (min x y)"

subsection \<open>Helpers that \<^verbatim>\<open>scheduler.ts\<close> imports from \<^verbatim>\<open>./date-utils\<close>\<close>

text \<open>
  \<^verbatim>\<open>scheduler.ts\<close> imports \<^verbatim>\<open>generateRandomCommitTimes\<close> and \<^verbatim>\<open>isWeekend\<close> from its
  sibling module \<^verbatim>\<open>shared/src/utils/date-utils.ts\<close>, which is not among the sources. The
  two functions are modelled from sections 4.1 and 4.3 of the specification.
\<close>

type_synonym DateTime = int

text \<open>
  Modelled from the spec: \<^verbatim>\<open>isWeekend\<close> of \<^verbatim>\<open>shared/src/utils/date-utils.ts\<close> is missing.
  Section 4.1: "Saturday or Sunday by local calendar weekday".
\<close>

definition isWeekend_shared :: "Date \<Rightarrow> bool" where
  "isWeekend_shared date = (getDay date = 6 \<or> getDay date = 0)"

text \<open>
  Modelled from the spec: the body of \<^verbatim>\<open>generateRandomCommitTimes\<close> of
  \<^verbatim>\<open>shared/src/utils/date-utils.ts\<close> is missing. Section 4.3, step 4f, for one
  timestamp: "if \<^verbatim>\<open>workHoursOnly\<close>, hour is uniform in [9,17); otherwise hour is uniform in
  [9,17) with probability 0.7 and uniform in [0,24) otherwise; minute and second uniform
  in their full ranges". A uniform value in \<open>[a, a + n)\<close> is \<open>a + \<lfloor>r * n\<rfloor>\<close> for a draw
  \<open>r\<close>; the result is the timestamp and the number of draws made.
\<close>

definition oneCommitTime :: "bool \<Rightarrow> (nat \<Rightarrow> real) \<Rightarrow> Date \<Rightarrow> nat \<Rightarrow> DateTime \<times> nat" where
  "oneCommitTime workHoursOnly rnd baseDate k =
     (if workHoursOnly then
        (setHours baseDate (9 + \<lfloor>rnd k * 8\<rfloor>) \<lfloor>rnd (k + 1) * 60\<rfloor> \<lfloor>rnd (k + 2) * 60\<rfloor>, k + 3)
      else if rnd k < 7 / 10 then
        (setHours baseDate (9 + \<lfloor>rnd (k + 1) * 8\<rfloor>) \<lfloor>rnd (k + 2) * 60\<rfloor> \<lfloor>rnd (k + 3) * 60\<rfloor>, k + 4)
      else
        (setHours baseDate \<lfloor>rnd (k + 1) * 24\<rfloor> \<lfloor>rnd (k + 2) * 60\<rfloor> \<lfloor>rnd (k + 3) * 60\<rfloor>, k + 4))"

text \<open>
  Modelled from the spec: the loop of \<^verbatim>\<open>generateRandomCommitTimes\<close> is missing. Section
  4.3, step 4f: "Generate \<^verbatim>\<open>count\<close> concrete timestamps for \<^verbatim>\<open>baseDate\<close>"; \<open>n\<close> is the
  number of timestamps still to generate.
\<close>

fun commitTimesLoop ::
  "nat \<Rightarrow> bool \<Rightarrow> (nat \<Rightarrow> real) \<Rightarrow> Date \<Rightarrow> nat \<Rightarrow> DateTime list \<times> nat" where
  "commitTimesLoop 0 workHoursOnly rnd baseDate k = ([], k)"
| "commitTimesLoop (Suc n) workHoursOnly rnd baseDate k =
     (case oneCommitTime workHoursOnly rnd baseDate k of (t, k1) \<Rightarrow>
      case commitTimesLoop n workHoursOnly rnd baseDate k1 of (ts, k2) \<Rightarrow> (t # ts, k2))"

text \<open>
  Modelled from the spec: what \<^verbatim>\<open>generateRandomCommitTimes\<close> does with a count that is not
  a natural number is missing, and the specification names no error of this step. A
  count that is a positive integer is that many timestamps; for any other number that
  the caller passes (zero, a negative integer, minus infinity, NaN) there is no
  timestamp to generate. The caller passes no other number: the count is a minimum with
  the cap, of a ceiling.
\<close>

fun timestampCount :: "jsnum \<Rightarrow> nat" where
  "timestampCount (Finite c) = nat \<lceil>c\<rceil>"
| "timestampCount a = 0"

text \<open>
  Modelled from the spec: \<^verbatim>\<open>generateRandomCommitTimes\<close> of
  \<^verbatim>\<open>shared/src/utils/date-utils.ts\<close> is missing. Section 4.3, step 4f: it generates
  \<^verbatim>\<open>count\<close> timestamps for \<^verbatim>\<open>baseDate\<close>, and it has no failure.
\<close>

definition generateRandomCommitTimes ::
  "Date \<Rightarrow> jsnum \<Rightarrow> bool \<Rightarrow> (nat \<Rightarrow> real) \<Rightarrow> nat \<Rightarrow> DateTime list \<times> nat" where
  "generateRandomCommitTimes baseDate count workHoursOnly rnd k =
     commitTimesLoop (timestampCount count) workHoursOnly rnd baseDate k"

subsection \<open>Schedule mapper (\<^verbatim>\<open>scheduler.ts\<close>)\<close>

datatype error =
    PatternNoRows          \<comment> \<open>\<^verbatim>\<open>'Pattern must have at least one row'\<close>\<close>
  | PatternNoColumns       \<comment> \<open>\<^verbatim>\<open>'Pattern must have at least one column'\<close>\<close>
  | EndNotAfterStart       \<comment> \<open>\<^verbatim>\<open>'End date must be after start date'\<close>\<close>
  | ScheduleFailed error   \<comment> \<open>\<^verbatim>\<open>`Failed to create commit schedule: ${error.message}`\<close>\<close>

record ScheduledCommit =
  date :: DateTime
  weight :: real
  message :: string

text \<open>
  \<^verbatim>\<open>CommitScheduleOptions\<close> after the defaults of lines 47-57. The zone is never read and
  is left out; the cap \<^verbatim>\<open>maxCommitsPerDay\<close> is an integer.
\<close>

record CommitScheduleOptions =
  startDate :: Date
  endDate :: Date
  pattern :: "real list list"
  density :: real
  randomize :: bool
  workHoursOnly :: bool
  avoidWeekends :: bool
  maxCommitsPerDay :: int

text \<open>Decimal rendering of an index, as a template literal renders it.\<close>

definition digitChar :: "nat \<Rightarrow> char" where
  "digitChar n = char_of (48 + n)"

function showNat :: "nat \<Rightarrow> string" where
  "showNat n = (if n < 10 then [digitChar n] else showNat (n div 10) @ [digitChar (n mod 10)])"
  by pat_completeness auto
termination
  by (relation "measure id") auto

declare showNat.simps [simp del]

text \<open>Line 124.\<close>

definition cellMessage :: "nat \<Rightarrow> nat \<Rightarrow> string" where
  "cellMessage row col =
     ''Commit for pattern cell ['' @ showNat row @ '','' @ showNat col @ '']''"

text \<open>
  \<^verbatim>\<open>pattern[row][col]\<close>: \<open>None\<close> is \<^verbatim>\<open>undefined\<close>, read from a row shorter than the first.
\<close>

definition cellAt :: "real list list \<Rightarrow> nat \<Rightarrow> nat \<Rightarrow> real option" where
  "cellAt p row col =
     (if row < length p \<and> col < length (p ! row) then Some (p ! row ! col) else None)"

text \<open>Line 74: \<^verbatim>\<open>Math.ceil(endDt.diff(startDt, 'days').days)\<close>.\<close>

definition totalDaysOf :: "CommitScheduleOptions \<Rightarrow> int" where
  "totalDaysOf options = \<lceil>real_of_int (endDate options - startDate options) / 86400000\<rceil>"

definition rowsOf :: "CommitScheduleOptions \<Rightarrow> nat" where
  "rowsOf options = length (pattern options)"

text \<open>\<^verbatim>\<open>pattern[0].length\<close>, read after the check that there is a row.\<close>

definition colsOf :: "CommitScheduleOptions \<Rightarrow> nat" where
  "colsOf options = length (hd (pattern options))"

text \<open>Line 81.\<close>

definition daysPerCellOf :: "CommitScheduleOptions \<Rightarrow> int" where
  "daysPerCellOf options =
     max 1 \<lfloor>real_of_int (totalDaysOf options) / real (rowsOf options * colsOf options)\<rfloor>"

text \<open>
  Lines 107-110, with \<open>r\<close> the value \<^verbatim>\<open>Math.random()\<close> returns when it is called: the
  factor \<^verbatim>\<open>randomize ? (0.5 + Math.random()) : 1\<close>, the product
  \<^verbatim>\<open>cellValue * density * factor\<close>, which is evaluated from the left, each operation
  rounding, and the count \<^verbatim>\<open>Math.min(maxCommitsPerDay, Math.ceil(product))\<close>.
\<close>

definition noiseFactor :: "CommitScheduleOptions \<Rightarrow> real \<Rightarrow> jsnum" where
  "noiseFactor options r = (if randomize options then rounded (1 / 2 + r) else Finite 1)"

definition cellProduct :: "CommitScheduleOptions \<Rightarrow> real \<Rightarrow> real \<Rightarrow> jsnum" where
  "cellProduct options cellValue r =
     jsMul (jsMul (Finite cellValue) (Finite (density options))) (noiseFactor options r)"

definition commitsForCell :: "CommitScheduleOptions \<Rightarrow> real \<Rightarrow> real \<Rightarrow> jsnum" where
  "commitsForCell options cellValue r =
     jsMin (Finite (of_int (maxCommitsPerDay options))) (jsCeil (cellProduct options cellValue r))"

text \<open>
  Lines 106-126 for a cell that was not skipped: the count, the commit times, the commits
  pushed. With an \<^verbatim>\<open>undefined\<close> cell value the count is NaN: the random factor is still
  evaluated, and there is no timestamp to generate.
\<close>

definition emitCell ::
  "CommitScheduleOptions \<Rightarrow> (nat \<Rightarrow> real) \<Rightarrow> nat \<Rightarrow> nat \<Rightarrow> real option \<Rightarrow> Date
     \<Rightarrow> nat \<times> ScheduledCommit list \<Rightarrow> nat \<times> ScheduledCommit list" where
  "emitCell options rnd row col cell baseDate st =
     (case st of (k, scheduledCommits) \<Rightarrow>
      let k1 = (if randomize options then k + 1 else k) in
      case cell of
        None \<Rightarrow> (k1, scheduledCommits)
      | Some cellValue \<Rightarrow>
          (case generateRandomCommitTimes baseDate
                  (commitsForCell options cellValue (rnd k))
                  (workHoursOnly options) rnd k1 of
             (commitTimes, k2) \<Rightarrow>
               (k2, scheduledCommits
                      @ map (\<lambda>commitTime. \<lparr>date = commitTime, weight = cellValue,
                                             message = cellMessage row col\<rparr>) commitTimes)))"

text \<open>
  Lines 94-126: the body of the inner loop after the range check. A cell value that is
  \<^verbatim>\<open>undefined\<close> is not \<open>\<le> 0\<close>. The weekend test draws a random number only when the
  first two conjuncts hold; the literal \<^verbatim>\<open>0.3\<close> is the double nearest to 3/10.
\<close>

definition processCell ::
  "CommitScheduleOptions \<Rightarrow> (nat \<Rightarrow> real) \<Rightarrow> int \<Rightarrow> nat \<Rightarrow> nat \<Rightarrow> nat
     \<Rightarrow> nat \<times> ScheduledCommit list \<Rightarrow> nat \<times> ScheduledCommit list" where
  "processCell options rnd daysPerCell row col cellIndex st =
     (let cell = cellAt (pattern options) row col in
      if (case cell of Some cellValue \<Rightarrow> cellValue \<le> 0 | None \<Rightarrow> False) then st
      else
        let dayOffset = int cellIndex * daysPerCell;
            baseDate = startDate options + dayOffset * msPerDay
        in if avoidWeekends options \<and> isWeekend_shared baseDate then
             (if rnd (fst st) > roundToDouble (3 / 10) then (fst st + 1, snd st)
              else emitCell options rnd row col cell baseDate (fst st + 1, snd st))
           else emitCell options rnd row col cell baseDate st)"

text \<open>The inner loop of lines 87-127, from column \<open>col\<close> on; the \<^verbatim>\<open>break\<close> leaves it.\<close>

function colLoop ::
  "CommitScheduleOptions \<Rightarrow> (nat \<Rightarrow> real) \<Rightarrow> nat \<Rightarrow> int \<Rightarrow> int \<Rightarrow> nat \<Rightarrow> nat
     \<Rightarrow> nat \<times> ScheduledCommit list \<Rightarrow> nat \<times> ScheduledCommit list" where
  "colLoop options rnd cols totalDays daysPerCell row col st =
     (if col < cols then
        (if int (row * cols + col) * daysPerCell \<ge> totalDays then st
         else colLoop options rnd cols totalDays daysPerCell row (Suc col)
                (processCell options rnd daysPerCell row col (row * cols + col) st))
      else st)"
  by pat_completeness auto
termination
  by (relation "measure (\<lambda>(options, rnd, cols, totalDays, daysPerCell, row, col, st). cols - col)")
     auto

declare colLoop.simps [simp del]

text \<open>The outer loop of lines 86-128, from row \<open>row\<close> on.\<close>

function rowLoop ::
  "CommitScheduleOptions \<Rightarrow> (nat \<Rightarrow> real) \<Rightarrow> nat \<Rightarrow> nat \<Rightarrow> int \<Rightarrow> int \<Rightarrow> nat
     \<Rightarrow> nat \<times> ScheduledCommit list \<Rightarrow> nat \<times> ScheduledCommit list" where
  "rowLoop options rnd rows cols totalDays daysPerCell row st =
     (if row < rows then
        rowLoop options rnd rows cols totalDays daysPerCell (Suc row)
          (colLoop options rnd cols totalDays daysPerCell row 0 st)
      else st)"
  by pat_completeness auto
termination
  by (relation "measure (\<lambda>(options, rnd, rows, cols, totalDays, daysPerCell, row, st). rows - row)")
     auto

declare rowLoop.simps [simp del]

text \<open>
  Lines 46-137, with the random source and the number of draws made before the call. The
  three checks of lines 62-78 throw inside the \<^verbatim>\<open>try\<close>; what they throw is caught at line
  134 and thrown again, wrapped.
\<close>

definition mapPatternToSchedule ::
  "CommitScheduleOptions \<Rightarrow> (nat \<Rightarrow> real) \<Rightarrow> nat \<Rightarrow> error + ScheduledCommit list" where
  "mapPatternToSchedule options rnd k =
     (if rowsOf options = 0 then Inl (ScheduleFailed PatternNoRows)
      else if colsOf options = 0 then Inl (ScheduleFailed PatternNoColumns)
      else if totalDaysOf options < 1 then Inl (ScheduleFailed EndNotAfterStart)
      else Inr (sort_key date
                  (snd (rowLoop options rnd (rowsOf options) (colsOf options) (totalDaysOf options)
                          (daysPerCellOf options) 0 (k, [])))))"




subsection \<open>Authenticity checker (\<^verbatim>\<open>scheduler.ts\<close>)\<close>

datatype authIssue =
    TooManyInOneDay nat "int \<times> int \<times> int"   \<comment> \<open>commits of the day, the day (year, month, day)\<close>
  | SameTime nat int                         \<comment> \<open>count, the time in ms\<close>
  | EqualIntervals nat                       \<comment> \<open>number of commits\<close>
  | LateNight nat int                        \<comment> \<open>late-night commits, rounded percentage\<close>

text \<open>\<^verbatim>\<open>toFormat('yyyy-MM-dd')\<close>: the calendar day, kept as year, month and day.\<close>

definition dayKey :: "DateTime \<Rightarrow> int \<times> int \<times> int" where
  "dayKey t = civilFromDays (dayNumber t)"

text \<open>
  A \<^verbatim>\<open>Map\<close> is the list of its entries in insertion order. Lines 149-155 for one commit:
  a new key is appended with an empty list, then the commit is pushed to the key's list.
\<close>

definition addToDay ::
  "(int \<times> int \<times> int) \<Rightarrow> ScheduledCommit
     \<Rightarrow> ((int \<times> int \<times> int) \<times> ScheduledCommit list) list
     \<Rightarrow> ((int \<times> int \<times> int) \<times> ScheduledCommit list) list" where
  "addToDay k c m =
     (let m1 = (if map_of m k = None then m @ [(k, [])] else m)
      in map (\<lambda>(k', cs). if k' = k then (k', cs @ [c]) else (k', cs)) m1)"

fun groupByDay ::
  "ScheduledCommit list \<Rightarrow> ((int \<times> int \<times> int) \<times> ScheduledCommit list) list
     \<Rightarrow> ((int \<times> int \<times> int) \<times> ScheduledCommit list) list" where
  "groupByDay [] m = m"
| "groupByDay (commit # commits) m = groupByDay commits (addToDay (dayKey (date commit)) commit m)"

text \<open>Lines 158-162.\<close>

fun dayIssues :: "((int \<times> int \<times> int) \<times> ScheduledCommit list) list \<Rightarrow> authIssue list" where
  "dayIssues [] = []"
| "dayIssues ((day, dayCommits) # m) =
     (if length dayCommits > 15 then [TooManyInOneDay (length dayCommits) day] else [])
     @ dayIssues m"

text \<open>Lines 166-169 for one commit: \<^verbatim>\<open>set(timeKey, (get(timeKey) || 0) + 1)\<close>.\<close>

definition countTime :: "int \<Rightarrow> (int \<times> nat) list \<Rightarrow> (int \<times> nat) list" where
  "countTime timeKey m =
     (case map_of m timeKey of
        None \<Rightarrow> m @ [(timeKey, 1)]
      | Some n \<Rightarrow> map (\<lambda>(k', n'). if k' = timeKey then (k', n + 1) else (k', n')) m)"

fun countTimes :: "ScheduledCommit list \<Rightarrow> (int \<times> nat) list \<Rightarrow> (int \<times> nat) list" where
  "countTimes [] m = m"
| "countTimes (commit # commits) m = countTimes commits (countTime (date commit) m)"

text \<open>Lines 171-176.\<close>

fun timeIssues :: "(int \<times> nat) list \<Rightarrow> authIssue list" where
  "timeIssues [] = []"
| "timeIssues ((time, count) # m) =
     (if count > 1 then [SameTime count time] else []) @ timeIssues m"

text \<open>Lines 180-183: the differences of consecutive commit times.\<close>

fun intervalsOf :: "ScheduledCommit list \<Rightarrow> int list" where
  "intervalsOf (a # b # commits) = (date b - date a) # intervalsOf (b # commits)"
| "intervalsOf commits = []"

text \<open>Lines 179-190; \<^verbatim>\<open>intervals[0]\<close> is read with more than three commits at hand.\<close>

definition spacingIssues :: "ScheduledCommit list \<Rightarrow> authIssue list" where
  "spacingIssues commits =
     (if length commits > 3 then
        (let intervals = intervalsOf commits;
             allSame = list_all (\<lambda>interval. interval = hd intervals) intervals
         in if allSame \<and> length commits > 5 then [EqualIntervals (length commits)] else [])
      else [])"

text \<open>
  Lines 193-199. The product with \<^verbatim>\<open>0.25\<close>, a power of two, is exact; the quotient and
  its product with 100 are rounded; \<^verbatim>\<open>Math.round(x)\<close> is \<open>\<lfloor>x + 1/2\<rfloor>\<close>.
\<close>

definition lateNightIssues :: "ScheduledCommit list \<Rightarrow> authIssue list" where
  "lateNightIssues commits =
     (let lateNightCommits =
            length (filter (\<lambda>c. getHours (date c) \<ge> 1 \<and> getHours (date c) \<le> 5) commits)
      in if real lateNightCommits > real (length commits) * (25 / 100)
         then [LateNight lateNightCommits
                 \<lfloor>roundToDouble
                    (roundToDouble (real lateNightCommits / real (length commits)) * 100)
                  + 1 / 2\<rfloor>]
         else [])"

text \<open>Lines 143-202.\<close>

definition checkScheduleAuthenticity :: "ScheduledCommit list \<Rightarrow> authIssue list" where
  "checkScheduleAuthenticity commits =
     dayIssues (groupByDay commits [])
     @ timeIssues (countTimes commits [])
     @ spacingIssues commits
     @ lateNightIssues commits"

subsection \<open>Batched executor (\<^verbatim>\<open>scheduler.ts\<close>)\<close>

text \<open>
  What the run does to the outside is a trace: a call of the operation on an item, the
  start of a timer of some milliseconds, a call of \<^verbatim>\<open>onProgress\<close>.
\<close>

datatype 'a effect =
    Called 'a
  | Waited int
  | Progress int int

text \<open>
  The operation is a function of the item and of a state of the outside world. Its call
  either throws at once, or returns a promise that fulfils, that rejects, or that never
  settles.
\<close>

datatype 'e outcome =
    Threw 'e
  | Fulfilled
  | Rejected 'e
  | Pending

record ('e, 'a, 'w) run =
  succeeded :: nat
  failed :: nat
  errors :: "'e list"
  trace :: "'a effect list"
  world :: 'w

text \<open>
  The options of lines 211-221. The callback \<^verbatim>\<open>onProgress\<close> either returns (\<open>None\<close>) or
  throws (\<open>Some\<close> of what it throws).
\<close>

record 'x batchOptions =
  batchSize :: int
  delayBetweenItems :: int
  delayBetweenBatches :: int
  onProgress :: "int \<Rightarrow> int \<Rightarrow> 'x option"


text \<open>\<^verbatim>\<open>Array.prototype.slice(start, end)\<close>: a negative index counts from the back.\<close>

definition jsSlice :: "'a list \<Rightarrow> int \<Rightarrow> int \<Rightarrow> 'a list" where
  "jsSlice xs start stop =
     (let n = int (length xs);
          s = (if start < 0 then max (n + start) 0 else min start n);
          e = (if stop < 0 then max (n + stop) 0 else min stop n)
      in take (nat (e - s)) (drop (nat s) xs))"

text \<open>
  Lines 234-236 for one item, up to the \<^verbatim>\<open>await\<close>: the callback of \<^verbatim>\<open>batch.map\<close> calls
  the operation. A call that throws is caught at once by lines 243-246.
\<close>

definition startItem ::
  "('a \<Rightarrow> 'w \<Rightarrow> 'e outcome \<times> 'w) \<Rightarrow> 'a \<Rightarrow> ('e, 'a, 'w) run
     \<Rightarrow> 'e outcome \<times> ('e, 'a, 'w) run" where
  "startItem processFn item results =
     (case processFn item (world results) of (out, w) \<Rightarrow>
      let results1 = results\<lparr>trace := trace results @ [Called item], world := w\<rparr>
      in (out,
          case out of
            Threw error \<Rightarrow> results1\<lparr>failed := failed results1 + 1,
                                       errors := errors results1 @ [error]\<rparr>
          | _ \<Rightarrow> results1))"

text \<open>
  \<^verbatim>\<open>batch.map(...)\<close>: the callbacks run one after another, each up to its \<^verbatim>\<open>await\<close>, so
  the operation is called on every item of the batch, in the order of the batch, before
  any promise settles. The result lists what became of each call.
\<close>

fun startBatch ::
  "('a \<Rightarrow> 'w \<Rightarrow> 'e outcome \<times> 'w) \<Rightarrow> 'a list \<Rightarrow> ('e, 'a, 'w) run
     \<Rightarrow> 'e outcome list \<times> ('e, 'a, 'w) run" where
  "startBatch processFn [] results = ([], results)"
| "startBatch processFn (item # batch) results =
     (case startItem processFn item results of (out, results1) \<Rightarrow>
      case startBatch processFn batch results1 of (outs, results2) \<Rightarrow> (out # outs, results2))"

text \<open>
  Lines 237-246 for the item at \<open>index\<close>, when the promise of its operation settles: after
  the \<^verbatim>\<open>await\<close> the success is counted and, unless the item is the last of the batch, the
  timer of \<^verbatim>\<open>delayBetweenItems\<close> is started; a rejection is counted in the \<^verbatim>\<open>catch\<close>. A call
  that threw has been counted already.
\<close>

definition settleItem ::
  "'x batchOptions \<Rightarrow> 'e outcome list \<Rightarrow> nat \<Rightarrow> ('e, 'a, 'w) run \<Rightarrow> ('e, 'a, 'w) run" where
  "settleItem options outs index results =
     (case outs ! index of
        Fulfilled \<Rightarrow>
          results\<lparr>succeeded := succeeded results + 1,
                  trace := trace results
                     @ (if int index < int (length outs) - 1
                        then [Waited (delayBetweenItems options)] else [])\<rparr>
      | Rejected error \<Rightarrow>
          results\<lparr>failed := failed results + 1, errors := errors results @ [error]\<rparr>
      | _ \<Rightarrow> results)"

text \<open>
  The code does not fix the order in which the promises of a batch settle. It is read
  from a list of indices into the batch: indices beyond the batch and repetitions are
  left out, and the items that the list does not name follow in the order of the batch.
\<close>

definition settleOrder :: "nat list \<Rightarrow> nat \<Rightarrow> nat list" where
  "settleOrder order n =
     (let listed = remdups (filter (\<lambda>index. index < n) order)
      in listed @ filter (\<lambda>index. index \<notin> set listed) [0..<n])"

text \<open>
  Lines 231-255: one pass of the loop, for the batch that starts at \<open>i\<close>; \<open>settle i\<close> is
  the order in which the promises of this batch settle. \<^verbatim>\<open>Promise.all\<close> settles when every
  promise of the batch has; with a promise that never settles the pass does not end
  (\<open>None\<close>). \<^verbatim>\<open>onProgress\<close> is called at line 250, outside every \<^verbatim>\<open>try\<close>: what it throws
  rejects the promise that \<open>processBatchedCommits\<close> returned (\<open>Inl\<close>).
\<close>

definition batchStep ::
  "('a \<Rightarrow> 'w \<Rightarrow> 'e outcome \<times> 'w) \<Rightarrow> 'x batchOptions \<Rightarrow> (int \<Rightarrow> nat list) \<Rightarrow> 'a list \<Rightarrow> int
     \<Rightarrow> ('e, 'a, 'w) run \<Rightarrow> ('x + ('e, 'a, 'w) run) option" where
  "batchStep processFn options settle items i results =
     (let batch = jsSlice items i (i + batchSize options) in
      case startBatch processFn batch results of (outs, results1) \<Rightarrow>
        if Pending \<in> set outs then None
        else
          let results2 = fold (settleItem options outs) (settleOrder (settle i) (length batch))
                           results1;
              processed = min (i + batchSize options) (int (length items));
              total = int (length items)
          in (case onProgress options processed total of
                Some exception \<Rightarrow> Some (Inl exception)
              | None \<Rightarrow>
                  Some (Inr (results2\<lparr>trace := trace results2 @ [Progress processed total]
                               @ (if i + batchSize options < int (length items)
                                  then [Waited (delayBetweenBatches options)] else [])\<rparr>))))"

text \<open>
  The loop of lines 230-256. Nothing in the source bounds the number of passes when the
  batch size is not positive, so the result is an \<open>option\<close>: \<open>None\<close> stands for a run
  that does not end.
\<close>

partial_function (option) batchLoop ::
  "('a \<Rightarrow> 'w \<Rightarrow> 'e outcome \<times> 'w) \<Rightarrow> 'x batchOptions \<Rightarrow> (int \<Rightarrow> nat list) \<Rightarrow> 'a list \<Rightarrow> int
     \<Rightarrow> ('e, 'a, 'w) run \<Rightarrow> ('x + ('e, 'a, 'w) run) option" where
  "batchLoop processFn options settle items i results =
     (if i < int (length items) then
        (case batchStep processFn options settle items i results of
           None \<Rightarrow> None
         | Some (Inl exception) \<Rightarrow> Some (Inl exception)
         | Some (Inr results1) \<Rightarrow>
             batchLoop processFn options settle items (i + batchSize options) results1)
      else Some (Inr results))"

declare batchLoop.simps [code]

text \<open>
  Lines 208-259, from the state \<open>w\<close> of the outside world: the value that the returned
  promise fulfils with (\<open>Inr\<close>), or what it rejects with (\<open>Inl\<close>).
\<close>

definition processBatchedCommits ::
  "'a list \<Rightarrow> ('a \<Rightarrow> 'w \<Rightarrow> 'e outcome \<times> 'w) \<Rightarrow> 'x batchOptions \<Rightarrow> (int \<Rightarrow> nat list) \<Rightarrow> 'w
     \<Rightarrow> ('x + ('e, 'a, 'w) run) option" where
  "processBatchedCommits items processFn options settle w =
     batchLoop processFn options settle items 0
       \<lparr>succeeded = 0, failed = 0, errors = [], trace = [], world = w\<rparr>"




subsection \<open>Example inputs\<close>

text \<open>A grid with a cell above 4, a valid cell, a fraction and a negative cell.\<close>

definition mixedGrid :: "real list list" where
  "mixedGrid = [[5, 2], [1 / 2, - 1]]"

text \<open>Six commits, one hour apart, from 10:00 on 1 January 2024.\<close>

definition sixHourly :: "ScheduledCommit list" where
  "sixHourly =
     [\<lparr>date = 1704103200000, weight = 1, message = []\<rparr>, \<lparr>date = 1704106800000, weight = 1, message = []\<rparr>,
      \<lparr>date = 1704110400000, weight = 1, message = []\<rparr>, \<lparr>date = 1704114000000, weight = 1, message = []\<rparr>,
      \<lparr>date = 1704117600000, weight = 1, message = []\<rparr>, \<lparr>date = 1704121200000, weight = 1, message = []\<rparr>]"

text \<open>
  Options for 1 to 3 January 2024 (two days) and a grid of 2 by 2, with the default
  density \<^verbatim>\<open>0.7\<close>, and the schedule they give when every random draw is 1/2.
\<close>

definition exOptions :: CommitScheduleOptions where
  "exOptions = \<lparr>startDate = 1704067200000, endDate = 1704240000000, pattern = [[1, 1], [1, 1]],
      density = roundToDouble (7 / 10), randomize = False, workHoursOnly = True,
      avoidWeekends = True, maxCommitsPerDay = 5\<rparr>"

definition exSchedule :: "ScheduledCommit list" where
  "exSchedule =
     [\<lparr>date = 1704115830000, weight = 1, message = ''Commit for pattern cell [0,0]''\<rparr>,
      \<lparr>date = 1704202230000, weight = 1, message = ''Commit for pattern cell [0,1]''\<rparr>]"



definition exampleRandom :: "nat \<Rightarrow> real" where
  "exampleRandom k = real (Suc k mod 8) / 8"


definition zeroDraws :: "nat \<Rightarrow> real" where
  "zeroDraws k = 0"

definition negativeCapOptions :: CommitScheduleOptions where
  "negativeCapOptions = \<lparr>startDate = 1704067200000, endDate = 1704240000000, pattern = [[1]],
      density = 3 / 4, randomize = False, workHoursOnly = False, avoidWeekends = False,
      maxCommitsPerDay = - 1\<rparr>"










section \<open>Theorems\<close>

subsection \<open>Pattern validator\<close>

lemma count_colIssues:
  "count_list (colIssues vs row c0) (InvalidIntensity v r c) =
     (if r = row \<and> c0 \<le> c \<and> c - c0 < length vs \<and> v = vs ! (c - c0) \<and> invalidIntensity v
      then 1 else 0)"
proof (induction vs arbitrary: c0)
  case Nil
  show ?case by simp
next
  case (Cons a vs)
  show ?case
  proof (cases "c = c0")
    case True
    then show ?thesis using Cons.IH [of "Suc c0"] by auto
  next
    case False
    then have "c0 \<le> c \<Longrightarrow> c - c0 = Suc (c - Suc c0)" by simp
    then show ?thesis using False Cons.IH [of "Suc c0"] by (auto simp: Suc_le_eq)
  qed
qed

lemma count_cellIssues:
  "count_list (cellIssues p r0) (InvalidIntensity v r c) =
     (if r0 \<le> r \<and> r - r0 < length p \<and> c < length (p ! (r - r0))
         \<and> v = p ! (r - r0) ! c \<and> invalidIntensity v
      then 1 else 0)"
proof (induction p arbitrary: r0)
  case Nil
  show ?case by simp
next
  case (Cons a p)
  show ?case
  proof (cases "r = r0")
    case True
    then show ?thesis using Cons.IH [of "Suc r0"] by (auto simp: count_colIssues)
  next
    case False
    then have "r0 \<le> r \<Longrightarrow> r - r0 = Suc (r - Suc r0)" by simp
    then show ?thesis
      using False Cons.IH [of "Suc r0"] by (auto simp: count_colIssues Suc_le_eq)
  qed
qed

lemma count_rowLengthIssues:
  "count_list (rowLengthIssues rs i n) (InvalidIntensity v r c) = 0"
  by (induction rs arbitrary: i) auto

lemma invalidIntensity_iff: "invalidIntensity v \<longleftrightarrow> v \<notin> {0, 1, 2, 3, 4}"
proof
  assume inv: "invalidIntensity v"
  show "v \<notin> {0, 1, 2, 3, 4}"
  proof
    assume "v \<in> {0, 1, 2, 3, 4}"
    then have "\<not> invalidIntensity v"
      by (auto simp: invalidIntensity_def isInteger_def)
    with inv show False by simp
  qed
next
  assume out: "v \<notin> {0, 1, 2, 3, 4}"
  show "invalidIntensity v"
  proof (rule ccontr)
    assume "\<not> invalidIntensity v"
    then have i: "of_int \<lfloor>v\<rfloor> = v" and lo: "0 \<le> v" and hi: "v \<le> 4"
      by (auto simp: invalidIntensity_def isInteger_def)
    from lo hi have "0 \<le> \<lfloor>v\<rfloor>" "\<lfloor>v\<rfloor> \<le> 4" by (simp_all add: floor_le_iff)
    then have "\<lfloor>v\<rfloor> = 0 \<or> \<lfloor>v\<rfloor> = 1 \<or> \<lfloor>v\<rfloor> = 2 \<or> \<lfloor>v\<rfloor> = 3 \<or> \<lfloor>v\<rfloor> = 4" by arith
    with i have "v = 0 \<or> v = 1 \<or> v = 2 \<or> v = 3 \<or> v = 4"
      by (metis of_int_0 of_int_1 of_int_numeral)
    with out show False by simp
  qed
qed

text \<open>
  C9. For a pattern with a first row that is not empty, the result of \<open>validatePattern\<close>
  holds the invalid-intensity issue of a value, a row and a column exactly once when the
  cell at that row and column holds that value and the value is not one of the integers
  0, 1, 2, 3, 4, and not at all otherwise. So each cell that is not an integer in
  \<open>[0, 4]\<close> has one issue of its own, which names its value and its place, and no other
  cell has one.
\<close>

theorem validatePattern_one_issue_per_invalid_cell:
  assumes "grid \<noteq> []" and "hd grid \<noteq> []"
  shows "count_list (validatePattern grid) (InvalidIntensity v r c) =
           (if r < length grid \<and> c < length (grid ! r)
               \<and> v = grid ! r ! c \<and> v \<notin> {0, 1, 2, 3, 4}
            then 1 else 0)"
  using assms
  by (simp add: validatePattern_def Let_def count_cellIssues count_rowLengthIssues
        invalidIntensity_iff)

lemma mixedGrid_issues:
  "validatePattern mixedGrid
     = [InvalidIntensity 5 0 0, InvalidIntensity (1 / 2) 1 0, InvalidIntensity (- 1) 1 1]"
  by (simp add: validatePattern_def mixedGrid_def invalidIntensity_def isInteger_def)

text \<open>
  Instances: in the grid \<open>[[5, 2], [1/2, -1]]\<close> the cells 5, 1/2 and -1 have one issue each
  and the cell 2 has none; the pattern \<open>[[5]]\<close> of the specification has the one issue of
  its cell.
\<close>

theorem validatePattern_one_issue_per_invalid_cell_witness:
  "mixedGrid \<noteq> [] \<and> hd mixedGrid \<noteq> []
   \<and> count_list (validatePattern mixedGrid) (InvalidIntensity 5 0 0) = 1
   \<and> count_list (validatePattern mixedGrid) (InvalidIntensity 2 0 1) = 0
   \<and> count_list (validatePattern mixedGrid) (InvalidIntensity (1 / 2) 1 0) = 1
   \<and> count_list (validatePattern mixedGrid) (InvalidIntensity (- 1) 1 1) = 1
   \<and> validatePattern mixedGrid
       = [InvalidIntensity 5 0 0, InvalidIntensity (1 / 2) 1 0, InvalidIntensity (- 1) 1 1]
   \<and> count_list (validatePattern [[5]]) (InvalidIntensity 5 0 0) = 1
   \<and> validatePattern [[5]] = [InvalidIntensity 5 0 0]"
proof -
  have g: "mixedGrid \<noteq> []" "hd mixedGrid \<noteq> []" by (simp_all add: mixedGrid_def)
  note t = validatePattern_one_issue_per_invalid_cell [OF g]
  have "count_list (validatePattern mixedGrid) (InvalidIntensity 5 0 0) = 1"
    using t [of 5 0 0] by (simp add: mixedGrid_def)
  moreover have "count_list (validatePattern mixedGrid) (InvalidIntensity 2 0 1) = 0"
    using t [of 2 0 1] by (simp add: mixedGrid_def)
  moreover have "count_list (validatePattern mixedGrid) (InvalidIntensity (1 / 2) 1 0) = 1"
    using t [of "1 / 2" 1 0] by (simp add: mixedGrid_def)
  moreover have "count_list (validatePattern mixedGrid) (InvalidIntensity (- 1) 1 1) = 1"
    using t [of "- 1" 1 1] by (simp add: mixedGrid_def)
  moreover have "count_list (validatePattern [[5]]) (InvalidIntensity 5 0 0) = 1"
    using validatePattern_one_issue_per_invalid_cell [of "[[5]]" 5 0 0] by simp
  moreover have "validatePattern [[5]] = [InvalidIntensity 5 0 0]"
    by (simp add: validatePattern_def invalidIntensity_def isInteger_def)
  ultimately show ?thesis using g mixedGrid_issues by blast
qed

subsection \<open>Business hours\<close>

lemma isBusinessHours_iff: "isBusinessHours d \<longleftrightarrow> 9 \<le> getHours d \<and> getHours d \<le> 17"
  by (simp add: isBusinessHours_def Let_def)

lemma isBusinessHours_utils_iff:
  "isBusinessHours_utils d \<longleftrightarrow> 9 \<le> getHours d \<and> getHours d < 17"
  by (simp add: isBusinessHours_utils_def)

text \<open>
  C8. The specification: \<open>isBusinessHours\<close> is true exactly when the local hour is at least 9 and
  below 17. The function of \<^verbatim>\<open>utils/date-utils.ts\<close> does that
  (\<open>isBusinessHours_utils_iff\<close>); the one of \<^verbatim>\<open>commands/date.ts\<close> compares with
  \<open>\<le> 17\<close> and is true at 17:30 on 7 July 2025, an hour outside the interval.
\<close>

theorem isBusinessHours_true_at_half_past_five:
  "getHours (newDate 2025 6 7 + 17 * 3600000 + 30 * 60000) = 17
   \<and> isBusinessHours (newDate 2025 6 7 + 17 * 3600000 + 30 * 60000)
   \<and> \<not> isBusinessHours_utils (newDate 2025 6 7 + 17 * 3600000 + 30 * 60000)"
  by code_simp

subsection \<open>Authenticity adjustment\<close>

text \<open>Friday 4 July 2025 and Saturday 5 July 2025, 10:00.\<close>

lemma july4_2025: "newDate 2025 6 4 + 10 * 3600000 = 1751623200000"
  by code_simp

lemma getDay_fri: "getDay 1751623200000 = 5"
  by code_simp

lemma getDay_sat: "getDay 1751709600000 = 6"
  by code_simp

lemma isHoliday_fri: "isHoliday 1751623200000"
  by code_simp

lemma isBusinessHours_fri: "isBusinessHours 1751623200000"
  by code_simp

lemma next_day_fri: "setDate 1751623200000 (getDate 1751623200000 + 1) = 1751709600000"
  by code_simp

lemma previous_day_sat: "setDate 1751709600000 (getDate 1751709600000 - 1) = 1751623200000"
  by code_simp

lemma steps_fri:
  "avoidWeekends_adj options \<Longrightarrow>
   workHoursStep options rnd (weekendStep options 1751623200000, k) = (1751623200000, k)"
  by (simp add: workHoursStep_def weekendStep_def isWeekend_def getDay_fri isBusinessHours_fri)

lemma steps_sat:
  "avoidWeekends_adj options \<Longrightarrow>
   workHoursStep options rnd (weekendStep options 1751709600000, k) = (1751623200000, k)"
  by (simp add: workHoursStep_def weekendStep_def isWeekend_def getDay_sat isBusinessHours_fri
        previous_day_sat)

text \<open>
  With both \<open>avoidWeekends\<close> and \<open>avoidHolidays\<close>, a call on that Friday or on that
  Saturday never returns: the holiday step moves Friday to Saturday, the weekend step of
  the next call moves Saturday back to Friday.
\<close>

lemma adjust_friday_holiday_loops:
  assumes "adjustDateForAuthenticity options rnd s = Some y"
  shows "avoidWeekends_adj options \<longrightarrow> avoidHolidays_adj options \<longrightarrow>
         fst s \<in> {1751623200000, 1751709600000} \<longrightarrow> False"
proof (rule adjustDateForAuthenticity.raw_induct
    [where P = "\<lambda>options rnd s y. avoidWeekends_adj options \<longrightarrow> avoidHolidays_adj options \<longrightarrow>
         fst s \<in> {1751623200000, 1751709600000} \<longrightarrow> False", OF _ assms])
  fix f :: "DateAdjustmentOptions \<Rightarrow> (nat \<Rightarrow> real) \<Rightarrow> Date \<times> nat \<Rightarrow> (Date \<times> nat) option"
  fix options rnd s y
  assume IH: "\<And>options rnd s y. f options rnd s = Some y \<Longrightarrow>
         avoidWeekends_adj options \<longrightarrow> avoidHolidays_adj options \<longrightarrow>
         fst s \<in> {1751623200000, 1751709600000} \<longrightarrow> False"
    and body: "(case workHoursStep options rnd (weekendStep options (fst s), snd s) of
      (adjustedDate, k) \<Rightarrow>
        if avoidHolidays_adj options \<and> isHoliday adjustedDate
        then f options rnd (setDate adjustedDate (getDate adjustedDate + 1), k)
        else Some (adjustedDate, k)) = Some y"
  show "avoidWeekends_adj options \<longrightarrow> avoidHolidays_adj options \<longrightarrow>
         fst s \<in> {1751623200000, 1751709600000} \<longrightarrow> False"
  proof (intro impI)
    assume w: "avoidWeekends_adj options" and h: "avoidHolidays_adj options"
      and s: "fst s \<in> {1751623200000, 1751709600000}"
    obtain d k where sk: "s = (d, k)" by (cases s)
    from s sk
    have "workHoursStep options rnd (weekendStep options (fst s), snd s) = (1751623200000, k)"
      using steps_fri [OF w] steps_sat [OF w] by auto
    with body h have "f options rnd (1751709600000, k) = Some y"
      by (simp add: isHoliday_fri next_day_fri)
    from IH [OF this] w h show False by simp
  qed
qed

text \<open>
  C4. The specification: \<open>adjustDateForAuthenticity\<close> returns a date for every input date and every
  combination of the options. On Friday 4 July 2025, 10:00, with all three options on, the
  call does not return, whatever the random source: the value is \<open>None\<close>.
\<close>

theorem adjustDateForAuthenticity_friday_holiday_never_returns:
  "adjustDateForAuthenticity
     \<lparr>avoidWeekends_adj = True, workHoursOnly_adj = True, avoidHolidays_adj = True\<rparr> rnd
     (newDate 2025 6 4 + 10 * 3600000, k) = None"
proof -
  have "adjustDateForAuthenticity
     \<lparr>avoidWeekends_adj = True, workHoursOnly_adj = True, avoidHolidays_adj = True\<rparr> rnd
     (1751623200000, k) = None"
  proof (cases "adjustDateForAuthenticity
     \<lparr>avoidWeekends_adj = True, workHoursOnly_adj = True, avoidHolidays_adj = True\<rparr> rnd
     (1751623200000, k)")
    case None
    then show ?thesis .
  next
    case (Some y)
    from adjust_friday_holiday_loops [OF Some] show ?thesis
      by simp
  qed
  then show ?thesis
    by (simp only: july4_2025)
qed

text \<open>
  A date that needs one shift only does come back: Saturday 12 July 2025, 10:00, becomes
  the Friday before, at the same clock time, without a random draw.
\<close>

lemma adjustDateForAuthenticity_saturday:
  "adjustDateForAuthenticity
     \<lparr>avoidWeekends_adj = True, workHoursOnly_adj = False, avoidHolidays_adj = True\<rparr> rnd
     (newDate 2025 6 12 + 10 * 3600000, k) = Some (newDate 2025 6 11 + 10 * 3600000, k)"
proof -
  have a: "newDate 2025 6 12 + 10 * 3600000 = 1752314400000" by code_simp
  have b: "newDate 2025 6 11 + 10 * 3600000 = 1752228000000" by code_simp
  have c: "getDay 1752314400000 = 6" by code_simp
  have d: "setDate 1752314400000 (getDate 1752314400000 - 1) = 1752228000000" by code_simp
  have e: "\<not> isHoliday 1752228000000" by code_simp
  show ?thesis
    unfolding a b
    by (subst adjustDateForAuthenticity.simps)
       (simp add: c d e weekendStep_def workHoursStep_def isWeekend_def)
qed

subsection \<open>Batched executor\<close>

















text \<open>
  C10. With an empty item list \<open>processBatchedCommits\<close> returns zero successes, zero
  failures and no errors, and its trace is empty: the operation is not called,
  \<^verbatim>\<open>onProgress\<close> is not called, no timer is started. This holds for every operation, all
  options (also an \<^verbatim>\<open>onProgress\<close> that throws) and every order of settling.
\<close>

theorem processBatchedCommits_empty:
  "processBatchedCommits [] processFn options settle w =
     Some (Inr \<lparr>succeeded = 0, failed = 0, errors = [], trace = [], world = w\<rparr>)"
  by (simp add: processBatchedCommits_def batchLoop.simps)










subsection \<open>Authenticity checker\<close>

lemma length_intervalsOf: "length (intervalsOf commits) = length commits - 1"
  by (induction commits rule: intervalsOf.induct) simp_all

lemma nth_intervalsOf:
  "Suc i < length commits \<Longrightarrow>
   intervalsOf commits ! i = date (commits ! Suc i) - date (commits ! i)"
proof (induction commits arbitrary: i rule: intervalsOf.induct)
  case (1 a b commits)
  then show ?case by (cases i) simp_all
qed simp_all

lemma allSame_iff:
  assumes "2 \<le> length commits"
  shows "list_all (\<lambda>interval. interval = hd (intervalsOf commits)) (intervalsOf commits)
     \<longleftrightarrow> (\<forall>i. Suc i < length commits \<longrightarrow>
            date (commits ! Suc i) - date (commits ! i) = date (commits ! 1) - date (commits ! 0))"
proof -
  have ne: "intervalsOf commits \<noteq> []"
    using assms length_intervalsOf [of commits] by (cases "intervalsOf commits") auto
  have h: "hd (intervalsOf commits) = date (commits ! 1) - date (commits ! 0)"
    using assms nth_intervalsOf [of 0 commits] ne by (simp add: hd_conv_nth)
  have "Suc i < length commits \<longleftrightarrow> i < length (intervalsOf commits)" for i
    by (simp add: length_intervalsOf less_diff_conv)
  then show ?thesis
    unfolding h by (auto simp: list_all_length nth_intervalsOf)
qed

lemma EqualIntervals_notin_dayIssues: "EqualIntervals n \<notin> set (dayIssues m)"
  by (induction m rule: dayIssues.induct) auto

lemma EqualIntervals_notin_timeIssues: "EqualIntervals n \<notin> set (timeIssues m)"
  by (induction m rule: timeIssues.induct) auto

lemma EqualIntervals_notin_lateNightIssues: "EqualIntervals n \<notin> set (lateNightIssues commits)"
  by (simp add: lateNightIssues_def Let_def)

lemma EqualIntervals_iff:
  "EqualIntervals n \<in> set (checkScheduleAuthenticity commits) \<longleftrightarrow>
     n = length commits \<and> 5 < length commits \<and>
     (\<forall>i. Suc i < length commits \<longrightarrow>
            date (commits ! Suc i) - date (commits ! i) = date (commits ! 1) - date (commits ! 0))"
proof (cases "3 < length commits")
  case True
  then have "2 \<le> length commits" by simp
  from allSame_iff [OF this] True show ?thesis
    by (auto simp: checkScheduleAuthenticity_def spacingIssues_def Let_def
          EqualIntervals_notin_dayIssues EqualIntervals_notin_timeIssues
          EqualIntervals_notin_lateNightIssues)
next
  case False
  then show ?thesis
    by (simp add: checkScheduleAuthenticity_def spacingIssues_def
          EqualIntervals_notin_dayIssues EqualIntervals_notin_timeIssues
          EqualIntervals_notin_lateNightIssues)
qed

text \<open>
  C6. If there are more than 5 commits and all differences of consecutive commit times
  are the same, the result of \<open>checkScheduleAuthenticity\<close> holds the equal-intervals
  issue; with 5 commits or fewer the result never holds it, whatever the differences.
\<close>

theorem uniform_spacing_threshold:
  "(5 < length commits \<and>
      (\<forall>i. Suc i < length commits \<longrightarrow>
            date (commits ! Suc i) - date (commits ! i) = date (commits ! 1) - date (commits ! 0))
     \<longrightarrow> EqualIntervals (length commits) \<in> set (checkScheduleAuthenticity commits))
   \<and> (length commits \<le> 5 \<longrightarrow> (\<forall>n. EqualIntervals n \<notin> set (checkScheduleAuthenticity commits)))"
proof (intro conjI impI allI)
  assume "5 < length commits \<and>
      (\<forall>i. Suc i < length commits \<longrightarrow>
            date (commits ! Suc i) - date (commits ! i) = date (commits ! 1) - date (commits ! 0))"
  then show "EqualIntervals (length commits) \<in> set (checkScheduleAuthenticity commits)"
    by (rule EqualIntervals_iff [THEN iffD2, OF conjI, OF refl])
next
  fix n
  assume small: "length commits \<le> 5"
  show "EqualIntervals n \<notin> set (checkScheduleAuthenticity commits)"
  proof
    assume "EqualIntervals n \<in> set (checkScheduleAuthenticity commits)"
    from EqualIntervals_iff [THEN iffD1, OF this] have "5 < length commits" by (rule conjunct1 [OF conjunct2])
    with small show False by simp
  qed
qed

lemma length_sixHourly: "length sixHourly = 6"
  by (simp add: sixHourly_def)

lemma sixHourly_gaps:
  "\<forall>i. Suc i < length sixHourly \<longrightarrow>
     date (sixHourly ! Suc i) - date (sixHourly ! i) = date (sixHourly ! 1) - date (sixHourly ! 0)"
proof -
  have la: "list_all (\<lambda>interval. interval = hd (intervalsOf sixHourly)) (intervalsOf sixHourly)"
    by (simp add: sixHourly_def)
  have len: "2 \<le> length sixHourly" by (simp add: length_sixHourly)
  show ?thesis by (rule allSame_iff [OF len, THEN iffD1, OF la])
qed

text \<open>Six commits one hour apart raise the issue; the first five of them do not.\<close>

theorem uniform_spacing_threshold_witness:
  "5 < length sixHourly
   \<and> EqualIntervals 6 \<in> set (checkScheduleAuthenticity sixHourly)
   \<and> length (butlast sixHourly) \<le> 5
   \<and> (\<forall>n. EqualIntervals n \<notin> set (checkScheduleAuthenticity (butlast sixHourly)))"
proof -
  have l: "5 < length sixHourly" by (simp add: length_sixHourly)
  from uniform_spacing_threshold [of sixHourly] l sixHourly_gaps
  have "EqualIntervals (length sixHourly) \<in> set (checkScheduleAuthenticity sixHourly)"
    by blast
  then have a: "EqualIntervals 6 \<in> set (checkScheduleAuthenticity sixHourly)"
    by (simp only: length_sixHourly)
  have l5: "length (butlast sixHourly) \<le> 5" by (simp add: length_sixHourly)
  from uniform_spacing_threshold [of "butlast sixHourly"] l5
  have b: "\<forall>n. EqualIntervals n \<notin> set (checkScheduleAuthenticity (butlast sixHourly))"
    by blast
  from l a l5 b show ?thesis by blast
qed

lemma sixHourly_spacing: "spacingIssues sixHourly = [EqualIntervals 6]"
  by (simp add: spacingIssues_def sixHourly_def)

lemma sixHourly_days: "dayIssues (groupByDay sixHourly []) = []"
  by code_simp

lemma sixHourly_times: "timeIssues (countTimes sixHourly []) = []"
  by code_simp

lemma sixHourly_night: "lateNightIssues sixHourly = []"
  by (simp add: lateNightIssues_def sixHourly_def getHours_def msPerDay_def)

lemma sixHourly_check: "checkScheduleAuthenticity sixHourly = [EqualIntervals 6]"
  by (simp add: checkScheduleAuthenticity_def sixHourly_spacing sixHourly_days sixHourly_times sixHourly_night)

text \<open>With 23 late commits of 40 the runtime prints 57 percent, the exact quotient being 57.5.\<close>

lemma lateNight_percentage:
  "\<lfloor>roundToDouble (roundToDouble (real 23 / real 40) * 100) + 1 / 2\<rfloor> = 57"
  by code_simp

subsection \<open>Numbers of the runtime\<close>



lemma pow2_powi: "pow2 e = 2 powi e"
  by (simp add: pow2_def power_int_def power_inverse [symmetric] inverse_eq_divide power_one_over)



lemma pow2_mono: "i \<le> j \<Longrightarrow> pow2 i \<le> pow2 j"
  by (simp add: pow2_powi power_int_increasing)





lemma stepsDown_le: "stepsDown n p x \<le> n"
  by (induction n arbitrary: p) simp_all



lemma exponentOf_ge: "- 1022 \<le> exponentOf x"
  using stepsDown_le [of 1022 1 x] by (simp add: exponentOf_def)











subsection \<open>Schedule mapper\<close>

lemma example_schedule: "mapPatternToSchedule exOptions (\<lambda>_. 1 / 2) 0 = Inr exSchedule"
  by code_simp

text \<open>
  C1. Whenever \<open>mapPatternToSchedule\<close> returns a schedule, the schedule is in ascending
  order of time: each commit's time is at most the time of the commit after it.
\<close>

theorem mapPatternToSchedule_sorted:
  assumes "mapPatternToSchedule options rnd k = Inr schedule"
  shows "\<forall>i. Suc i < length schedule \<longrightarrow> date (schedule ! i) \<le> date (schedule ! Suc i)"
proof -
  from assms obtain commits where "schedule = sort_key date commits"
    by (auto simp: mapPatternToSchedule_def split: if_splits)
  then have "sorted (map date schedule)"
    by simp
  then show ?thesis
    by (auto simp: sorted_iff_nth_Suc)
qed





lemma commitsForCell_kinds:
  "commitsForCell options cellValue r \<noteq> PlusInfinity
   \<and> (\<forall>c. commitsForCell options cellValue r = Finite c \<longrightarrow> of_int \<lfloor>c\<rfloor> = c)"
  by (cases "cellProduct options cellValue r") (simp_all add: commitsForCell_def min_def)



































text \<open>
  C7. \<open>mapPatternToSchedule\<close> fails with an error, and so returns no commits, when the
  pattern has no row, when its first row has no column, and when the number of days is
  below 1; and these are the only cases in which it fails.
\<close>

theorem mapPatternToSchedule_error_cases:
  "(rowsOf options = 0 \<longrightarrow> mapPatternToSchedule options rnd k = Inl (ScheduleFailed PatternNoRows))
   \<and> (rowsOf options \<noteq> 0 \<and> colsOf options = 0
        \<longrightarrow> mapPatternToSchedule options rnd k = Inl (ScheduleFailed PatternNoColumns))
   \<and> (rowsOf options \<noteq> 0 \<and> colsOf options \<noteq> 0 \<and> totalDaysOf options < 1
        \<longrightarrow> mapPatternToSchedule options rnd k = Inl (ScheduleFailed EndNotAfterStart))
   \<and> ((\<exists>e. mapPatternToSchedule options rnd k = Inl e)
        \<longleftrightarrow> rowsOf options = 0 \<or> colsOf options = 0 \<or> totalDaysOf options < 1)"
  by (simp add: mapPatternToSchedule_def)

lemma digitChar_inj: "m < 10 \<Longrightarrow> n < 10 \<Longrightarrow> digitChar m = digitChar n \<Longrightarrow> m = n"
proof -
  assume m: "m < 10" and n: "n < 10" and eq: "digitChar m = digitChar n"
  from eq have "(of_char (digitChar m) :: nat) = of_char (digitChar n)" by simp
  with m n show "m = n" by (simp add: digitChar_def)
qed

lemma digitChar_code: "n < 10 \<Longrightarrow> (of_char (digitChar n) :: nat) = 48 + n"
  by (simp add: digitChar_def)

lemma digitChar_not_separator:
  assumes "n < 10"
  shows "digitChar n \<noteq> CHR '',''" and "digitChar n \<noteq> CHR '']''"
proof -
  show "digitChar n \<noteq> CHR '',''"
  proof
    assume "digitChar n = CHR '',''"
    then have "(of_char (digitChar n) :: nat) = of_char (CHR '','')" by simp
    with digitChar_code [OF assms] show False by simp
  qed
  show "digitChar n \<noteq> CHR '']''"
  proof
    assume "digitChar n = CHR '']''"
    then have "(of_char (digitChar n) :: nat) = of_char (CHR '']'')" by simp
    with digitChar_code [OF assms] assms show False by simp
  qed
qed

lemma showNat_nonempty: "showNat n \<noteq> []"
  by (subst showNat.simps) simp

lemma showNat_no_separator:
  "c \<in> set (showNat n) \<Longrightarrow> c \<noteq> CHR '','' \<and> c \<noteq> CHR '']''"
proof (induction n rule: showNat.induct)
  case (1 n)
  show ?case
  proof (cases "n < 10")
    case True
    with "1.prems" have "c = digitChar n" by (subst (asm) showNat.simps) simp
    with digitChar_not_separator [OF True] show ?thesis by simp
  next
    case False
    with "1.prems" have "c \<in> set (showNat (n div 10)) \<or> c = digitChar (n mod 10)"
      by (subst (asm) showNat.simps) auto
    then show ?thesis
      using "1.IH" [OF False] digitChar_not_separator [of "n mod 10"] by auto
  qed
qed

lemma showNat_small: "n < 10 \<Longrightarrow> showNat n = [digitChar n]"
  by (subst showNat.simps) simp

lemma showNat_large: "\<not> n < 10 \<Longrightarrow> showNat n = showNat (n div 10) @ [digitChar (n mod 10)]"
  by (subst showNat.simps) simp

lemma showNat_inj: "showNat m = showNat n \<Longrightarrow> m = n"
proof (induction m arbitrary: n rule: showNat.induct)
  case (1 m)
  show ?case
  proof (cases "m < 10")
    case m: True
    show ?thesis
    proof (cases "n < 10")
      case True
      with m "1.prems" show ?thesis by (simp add: showNat_small digitChar_inj)
    next
      case False
      with m "1.prems" showNat_nonempty [of "n div 10"] show ?thesis
        by (simp add: showNat_small showNat_large Cons_eq_append_conv)
    qed
  next
    case m: False
    show ?thesis
    proof (cases "n < 10")
      case True
      with m "1.prems" showNat_nonempty [of "m div 10"] show ?thesis
        by (simp add: showNat_small showNat_large append_eq_Cons_conv)
    next
      case False
      with m "1.prems" have a: "showNat (m div 10) = showNat (n div 10)"
        and b: "digitChar (m mod 10) = digitChar (n mod 10)"
        by (simp_all add: showNat_large)
      from "1.IH" [OF m a] have "m div 10 = n div 10" .
      moreover from b have "m mod 10 = n mod 10" by (simp add: digitChar_inj)
      ultimately show ?thesis by (metis div_mult_mod_eq)
    qed
  qed
qed

lemma split_at_separator:
  "x \<notin> set a \<Longrightarrow> x \<notin> set a' \<Longrightarrow> a @ x # b = a' @ x # b' \<Longrightarrow> a = a' \<and> b = b'"
proof (induction a arbitrary: a')
  case Nil
  then show ?case by (cases a') auto
next
  case (Cons y a)
  then show ?case by (cases a') auto
qed

lemma cellMessage_inj:
  assumes "cellMessage row col = cellMessage row' col'"
  shows "row = row' \<and> col = col'"
proof -
  from assms have eq: "showNat row @ CHR '','' # (showNat col @ '']'')
      = showNat row' @ CHR '','' # (showNat col' @ '']'')"
    by (simp add: cellMessage_def)
  have r: "CHR '','' \<notin> set (showNat row)"
    using showNat_no_separator [of "CHR '',''" row] by blast
  have r': "CHR '','' \<notin> set (showNat row')"
    using showNat_no_separator [of "CHR '',''" row'] by blast
  from split_at_separator [OF r r' eq]
  have "showNat row = showNat row'" and "showNat col = showNat col'"
    by simp_all
  then show ?thesis by (simp add: showNat_inj)
qed

lemma emitCell_messages:
  assumes "e \<in> set (snd (emitCell options rnd row col cell baseDate st))"
  shows "e \<in> set (snd st) \<or> message e = cellMessage row col"
  using assms
  by (cases st; cases cell)
     (auto simp: emitCell_def Let_def split: prod.splits)

lemma processCell_messages:
  assumes "e \<in> set (snd (processCell options rnd daysPerCell row col cellIndex st))"
  shows "e \<in> set (snd st) \<or> message e = cellMessage row col"
proof -
  note m = emitCell_messages [where e = e and row = row and col = col]
  from assms show ?thesis
    using m [of options rnd _ _ st] m [of options rnd _ _ "(fst st + 1, snd st)"]
    by (auto simp: processCell_def Let_def split: if_splits)
qed

lemma colLoop_messages:
  assumes "e \<in> set (snd (colLoop options rnd cols totalDays daysPerCell row col st))"
  shows "e \<in> set (snd st) \<or>
         (\<exists>c. c < cols \<and> int (row * cols + c) * daysPerCell < totalDays
              \<and> message e = cellMessage row c)"
  using assms
proof (induction options rnd cols totalDays daysPerCell row col st rule: colLoop.induct)
  case (1 options rnd cols totalDays daysPerCell row col st)
  show ?case
  proof (cases "col < cols \<and> \<not> totalDays \<le> int (row * cols + col) * daysPerCell")
    case False
    with "1.prems" show ?thesis
      by (subst (asm) colLoop.simps) (auto split: if_splits)
  next
    case True
    let ?st1 = "processCell options rnd daysPerCell row col (row * cols + col) st"
    from True "1.prems" have
      l: "e \<in> set (snd (colLoop options rnd cols totalDays daysPerCell row (Suc col) ?st1))"
      by (subst (asm) colLoop.simps) simp
    from "1.IH" [OF _ _ l] True
    have "e \<in> set (snd ?st1) \<or>
         (\<exists>c. c < cols \<and> int (row * cols + c) * daysPerCell < totalDays
              \<and> message e = cellMessage row c)"
      by simp
    then show ?thesis
    proof
      assume "e \<in> set (snd ?st1)"
      from processCell_messages [OF this] True show ?thesis
        by (auto simp: not_le)
    qed simp
  qed
qed

lemma rowLoop_messages:
  assumes "e \<in> set (snd (rowLoop options rnd rows cols totalDays daysPerCell row st))"
  shows "e \<in> set (snd st) \<or>
         (\<exists>r c. c < cols \<and> int (r * cols + c) * daysPerCell < totalDays
              \<and> message e = cellMessage r c)"
  using assms
proof (induction options rnd rows cols totalDays daysPerCell row st rule: rowLoop.induct)
  case (1 options rnd rows cols totalDays daysPerCell row st)
  show ?case
  proof (cases "row < rows")
    case False
    with "1.prems" show ?thesis
      by (subst (asm) rowLoop.simps) auto
  next
    case True
    let ?st1 = "colLoop options rnd cols totalDays daysPerCell row 0 st"
    from True "1.prems" have
      l: "e \<in> set (snd (rowLoop options rnd rows cols totalDays daysPerCell (Suc row) ?st1))"
      by (subst (asm) rowLoop.simps) simp
    from "1.IH" [OF True l]
    have "e \<in> set (snd ?st1) \<or>
         (\<exists>r c. c < cols \<and> int (r * cols + c) * daysPerCell < totalDays
              \<and> message e = cellMessage r c)" .
    then show ?thesis
    proof
      assume "e \<in> set (snd ?st1)"
      from colLoop_messages [OF this] show ?thesis
        by blast
    qed simp
  qed
qed

text \<open>
  C2. Whenever \<open>mapPatternToSchedule\<close> returns a schedule, no commit in it carries the
  message of a cell \<open>[row,col]\<close> whose index \<open>row * cols + col\<close>, times the days per cell,
  reaches the number of days: such cells leave no commit, in whichever row they lie.
\<close>

theorem mapPatternToSchedule_drops_cells_beyond_range:
  assumes "mapPatternToSchedule options rnd k = Inr schedule"
    and "totalDaysOf options \<le> int (row * colsOf options + col) * daysPerCellOf options"
  shows "\<forall>e \<in> set schedule. message e \<noteq> cellMessage row col"
proof
  fix e
  assume e: "e \<in> set schedule"
  let ?st = "rowLoop options rnd (rowsOf options) (colsOf options) (totalDaysOf options)
          (daysPerCellOf options) 0 (k, [])"
  from assms(1) have s: "schedule = sort_key date (snd ?st)"
    by (auto simp: mapPatternToSchedule_def split: if_splits)
  from e s have "e \<in> set (snd ?st)" by simp
  from rowLoop_messages [OF this] obtain r c where
    live: "int (r * colsOf options + c) * daysPerCellOf options < totalDaysOf options"
    and m: "message e = cellMessage r c"
    by auto
  show "message e \<noteq> cellMessage row col"
  proof
    assume "message e = cellMessage row col"
    with m have "cellMessage r c = cellMessage row col" by simp
    from cellMessage_inj [OF this] live assms(2) show False by simp
  qed
qed

lemma example_dims:
  "rowsOf exOptions = 2 \<and> colsOf exOptions = 2 \<and> totalDaysOf exOptions = 2
   \<and> daysPerCellOf exOptions = 1"
  by code_simp

text \<open>
  The instance of the specification: 1 to 3 January 2024 (2 days) and a grid of 2 by 2;
  the cells \<open>[1,0]\<close> and \<open>[1,1]\<close> lie beyond the range.
\<close>

theorem mapPatternToSchedule_sorted_witness:
  "mapPatternToSchedule exOptions (\<lambda>_. 1 / 2) 0 = Inr exSchedule
   \<and> Suc 0 < length exSchedule
   \<and> date (exSchedule ! 0) \<le> date (exSchedule ! Suc 0)"
proof -
  have l: "Suc 0 < length exSchedule" by (simp add: exSchedule_def)
  from mapPatternToSchedule_sorted [OF example_schedule, rule_format, OF l] example_schedule l
  show ?thesis by blast
qed

theorem mapPatternToSchedule_drops_cells_beyond_range_witness:
  "mapPatternToSchedule exOptions (\<lambda>_. 1 / 2) 0 = Inr exSchedule
   \<and> totalDaysOf exOptions \<le> int (1 * colsOf exOptions + 0) * daysPerCellOf exOptions
   \<and> message (exSchedule ! 0) \<noteq> cellMessage 1 0
   \<and> message (exSchedule ! 1) \<noteq> cellMessage 1 0"
proof -
  have h: "totalDaysOf exOptions \<le> int (1 * colsOf exOptions + 0) * daysPerCellOf exOptions"
    using example_dims by simp
  have m: "exSchedule ! 0 \<in> set exSchedule" "exSchedule ! 1 \<in> set exSchedule"
    by (simp_all add: exSchedule_def)
  note t = mapPatternToSchedule_drops_cells_beyond_range [OF example_schedule h]
  from t [rule_format, OF m(1)] t [rule_format, OF m(2)] example_schedule h
  show ?thesis by blast
qed

lemma example_failures:
  "rowsOf (exOptions\<lparr>pattern := []\<rparr>) = 0"
  "rowsOf (exOptions\<lparr>pattern := [[]]\<rparr>) \<noteq> 0 \<and> colsOf (exOptions\<lparr>pattern := [[]]\<rparr>) = 0"
  "rowsOf (exOptions\<lparr>endDate := 1704067200000\<rparr>) \<noteq> 0
   \<and> colsOf (exOptions\<lparr>endDate := 1704067200000\<rparr>) \<noteq> 0
   \<and> totalDaysOf (exOptions\<lparr>endDate := 1704067200000\<rparr>) < 1"
  by (simp_all add: rowsOf_def colsOf_def totalDaysOf_def exOptions_def)

theorem mapPatternToSchedule_error_cases_witness:
  "(rowsOf (exOptions\<lparr>pattern := []\<rparr>) = 0
    \<and> mapPatternToSchedule (exOptions\<lparr>pattern := []\<rparr>) exampleRandom 0
        = Inl (ScheduleFailed PatternNoRows))
   \<and> ((rowsOf (exOptions\<lparr>pattern := [[]]\<rparr>) \<noteq> 0 \<and> colsOf (exOptions\<lparr>pattern := [[]]\<rparr>) = 0)
    \<and> mapPatternToSchedule (exOptions\<lparr>pattern := [[]]\<rparr>) exampleRandom 0
        = Inl (ScheduleFailed PatternNoColumns))
   \<and> ((rowsOf (exOptions\<lparr>endDate := 1704067200000\<rparr>) \<noteq> 0
        \<and> colsOf (exOptions\<lparr>endDate := 1704067200000\<rparr>) \<noteq> 0
        \<and> totalDaysOf (exOptions\<lparr>endDate := 1704067200000\<rparr>) < 1)
    \<and> mapPatternToSchedule (exOptions\<lparr>endDate := 1704067200000\<rparr>) exampleRandom 0
        = Inl (ScheduleFailed EndNotAfterStart))
   \<and> ((\<exists>e. mapPatternToSchedule exOptions (\<lambda>_. 1 / 2) 0 = Inl e)
          \<longleftrightarrow> rowsOf exOptions = 0 \<or> colsOf exOptions = 0 \<or> totalDaysOf exOptions < 1)
   \<and> mapPatternToSchedule exOptions (\<lambda>_. 1 / 2) 0 = Inr exSchedule
   \<and> mapPatternToSchedule negativeCapOptions zeroDraws 0 = Inr []"
proof -
  note a = mapPatternToSchedule_error_cases [of "exOptions\<lparr>pattern := []\<rparr>" exampleRandom 0]
  note b = mapPatternToSchedule_error_cases [of "exOptions\<lparr>pattern := [[]]\<rparr>" exampleRandom 0]
  note c = mapPatternToSchedule_error_cases [of "exOptions\<lparr>endDate := 1704067200000\<rparr>" exampleRandom 0]
  note d = mapPatternToSchedule_error_cases [of exOptions "\<lambda>_. 1 / 2" 0]
  have n: "mapPatternToSchedule negativeCapOptions zeroDraws 0 = Inr []"
    by code_simp
  from a [THEN conjunct1, rule_format, OF example_failures(1)]
       b [THEN conjunct2, THEN conjunct1, rule_format, OF example_failures(2)]
       c [THEN conjunct2, THEN conjunct2, THEN conjunct1, rule_format, OF example_failures(3)]
       d [THEN conjunct2, THEN conjunct2, THEN conjunct2]
       example_failures example_schedule n
  show ?thesis by blast
qed

end
